theory Spec2Isabelle
  imports Complex_Main
begin

section \<open>The canvas grid viewer\<close>

text \<open>
  A shallow embedding of \<^verbatim>\<open>src/components/CanvasGrid.tsx\<close> and of the host
  \<^verbatim>\<open>src/App.tsx\<close>.

  \<^item> A TypeScript \<^verbatim>\<open>number\<close> that carries a coordinate, a scale or a size is a
    \<^typ>\<open>real\<close>: the arithmetic of the handlers is read over exact real numbers,
    not over IEEE doubles (no rounding, no \<^verbatim>\<open>NaN\<close>, no infinities). A
    statement about a quotient that the source computes assumes that the
    denominator (the scale, the cell size) is not zero.
  \<^item> Row and column indices are results of \<^verbatim>\<open>Math.floor\<close> or the sentinel
    \<^verbatim>\<open>-1\<close>, and the pointer id is an integer: they are \<^typ>\<open>int\<close>. The grid
    dimensions \<^verbatim>\<open>rows\<close> and \<^verbatim>\<open>cols\<close> are counts and are \<^typ>\<open>int\<close> too.
  \<^item> The React state variables and the \<^verbatim>\<open>panState\<close> ref are the fields of one
    record; a handler is a function from the state of the render it closes over to
    the state after its updates. Every handler runs in the closure of the latest
    render, so it reads the state as it was when the event arrived.
  \<^item> The optional callbacks act on the host; the host's state is a type parameter
    \<open>'h\<close>, and a callback is a function \<open>int \<Rightarrow> int \<Rightarrow> 'h \<Rightarrow> 'h\<close>. An invocation
    is one application of it to the host's state.
  \<^item> \<^verbatim>\<open>canvasRef.current\<close> is an optional canvas element, \<open>None\<close> before mount.
\<close>

subsection \<open>Data model\<close>

record Point =
  x :: real
  y :: real

record Cell =
  row :: int
  col :: int

record Size =
  width :: real
  height :: real

text \<open>The fields of \<^verbatim>\<open>getBoundingClientRect()\<close> that the code reads.\<close>

record DOMRect =
  rect_left :: real
  rect_top :: real

text \<open>
  The canvas element: its bounding rectangle, the size of its backing buffer
  (\<^verbatim>\<open>canvas.width\<close>, \<^verbatim>\<open>canvas.height\<close>) and whether \<^verbatim>\<open>getContext('2d')\<close>
  yields a context.
\<close>

record HTMLCanvasElement =
  boundingClientRect :: DOMRect
  buffer :: Size
  hasContext2d :: bool

record 'h CanvasGridProps =
  rows :: int
  cols :: int
  cellSize :: real
  onHover :: "(int \<Rightarrow> int \<Rightarrow> 'h \<Rightarrow> 'h) option"
  onSelect :: "(int \<Rightarrow> int \<Rightarrow> 'h \<Rightarrow> 'h) option"

record PanState =
  dragging :: bool
  pointerId :: int
  start :: Point
  origin :: Point

text \<open>
  The component's state, the set of pointers captured by the canvas element
  (\<^verbatim>\<open>setPointerCapture\<close>, \<^verbatim>\<open>releasePointerCapture\<close>) and the state of the host.
\<close>

record 'h GridState =
  scale :: real
  offset :: Point
  hoveredCell :: "Cell option"
  selectedCell :: "Cell option"
  canvasSize :: Size
  panState :: PanState
  pointerCapture :: "int set"
  host :: 'h

definition MIN_SCALE :: real where
  "MIN_SCALE = 0.25"

definition MAX_SCALE :: real where
  "MAX_SCALE = 4"

definition clamp :: "real \<Rightarrow> real \<Rightarrow> real \<Rightarrow> real" where
  "clamp v lo hi = min (max v lo) hi"

text \<open>The state of the first render: the initial values of the hooks.\<close>

definition initialState :: "'h \<Rightarrow> 'h GridState" where
  "initialState h =
     \<lparr> scale = 1,
       offset = \<lparr> x = 0, y = 0 \<rparr>,
       hoveredCell = None,
       selectedCell = None,
       canvasSize = \<lparr> width = 1200, height = 800 \<rparr>,
       panState = \<lparr> dragging = False, pointerId = - 1,
                    start = \<lparr> x = 0, y = 0 \<rparr>, origin = \<lparr> x = 0, y = 0 \<rparr> \<rparr>,
       pointerCapture = {},
       host = h \<rparr>"

text \<open>An optional call \<^verbatim>\<open>f?.(row, col)\<close>: nothing happens when \<open>f\<close> is absent.\<close>

definition optCall :: "(int \<Rightarrow> int \<Rightarrow> 'h \<Rightarrow> 'h) option \<Rightarrow> int \<Rightarrow> int \<Rightarrow> 'h \<Rightarrow> 'h" where
  "optCall f r c h = (case f of None \<Rightarrow> h | Some g \<Rightarrow> g r c h)"

subsection \<open>Hit testing\<close>

definition getCellFromClientPoint ::
  "'h CanvasGridProps \<Rightarrow> HTMLCanvasElement option \<Rightarrow> 'h GridState \<Rightarrow> real \<Rightarrow> real \<Rightarrow> Cell option"
where
  "getCellFromClientPoint props canvasRef s clientX clientY =
     (case canvasRef of
        None \<Rightarrow> None
      | Some canvas \<Rightarrow>
          (let rect = boundingClientRect canvas;
               gx = (clientX - rect_left rect - x (offset s)) / scale s;
               gy = (clientY - rect_top rect - y (offset s)) / scale s;
               c = \<lfloor>gx / cellSize props\<rfloor>;
               r = \<lfloor>gy / cellSize props\<rfloor>
           in if r < 0 \<or> c < 0 \<or> r \<ge> rows props \<or> c \<ge> cols props then None
              else Some \<lparr> row = r, col = c \<rparr>))"

subsection \<open>Event handlers\<close>

definition handlePointerDown :: "int \<Rightarrow> real \<Rightarrow> real \<Rightarrow> 'h GridState \<Rightarrow> 'h GridState" where
  "handlePointerDown pid clientX clientY s =
     s\<lparr> panState := \<lparr> dragging = True, pointerId = pid,
                      start = \<lparr> x = clientX, y = clientY \<rparr>,
                      origin = offset s \<rparr>,
        pointerCapture := insert pid (pointerCapture s) \<rparr>"

definition handlePointerMove ::
  "'h CanvasGridProps \<Rightarrow> HTMLCanvasElement option \<Rightarrow> int \<Rightarrow> real \<Rightarrow> real \<Rightarrow>
     'h GridState \<Rightarrow> 'h GridState"
where
  "handlePointerMove props canvasRef pid clientX clientY s =
     (let pan = panState s;
          s1 = (if dragging pan \<and> pointerId pan = pid then
                  (let dx = clientX - x (start pan);
                       dy = clientY - y (start pan)
                   in s\<lparr> offset := \<lparr> x = x (origin pan) + dx, y = y (origin pan) + dy \<rparr> \<rparr>)
                else s);
          cell = getCellFromClientPoint props canvasRef s clientX clientY
      in s1\<lparr> hoveredCell := cell,
             host := optCall (onHover props)
                       (case cell of Some c \<Rightarrow> row c | None \<Rightarrow> - 1)
                       (case cell of Some c \<Rightarrow> col c | None \<Rightarrow> - 1)
                       (host s1) \<rparr>)"

definition handlePointerUp :: "int \<Rightarrow> 'h GridState \<Rightarrow> 'h GridState" where
  "handlePointerUp pid s =
     (let s1 = (if pointerId (panState s) = pid
                then s\<lparr> panState := (panState s)\<lparr> dragging := False \<rparr> \<rparr>
                else s)
      in s1\<lparr> pointerCapture := pointerCapture s1 - {pid} \<rparr>)"

definition handlePointerLeave :: "'h CanvasGridProps \<Rightarrow> 'h GridState \<Rightarrow> 'h GridState" where
  "handlePointerLeave props s =
     s\<lparr> hoveredCell := None,
        host := optCall (onHover props) (- 1) (- 1) (host s) \<rparr>"

definition handleClick ::
  "'h CanvasGridProps \<Rightarrow> HTMLCanvasElement option \<Rightarrow> real \<Rightarrow> real \<Rightarrow>
     'h GridState \<Rightarrow> 'h GridState"
where
  "handleClick props canvasRef clientX clientY s =
     (case getCellFromClientPoint props canvasRef s clientX clientY of
        Some cell \<Rightarrow>
          s\<lparr> selectedCell := Some cell,
             host := optCall (onSelect props) (row cell) (col cell) (host s) \<rparr>
      | None \<Rightarrow> s)"

definition handleWheel ::
  "HTMLCanvasElement option \<Rightarrow> real \<Rightarrow> real \<Rightarrow> real \<Rightarrow> 'h GridState \<Rightarrow> 'h GridState"
where
  "handleWheel canvasRef clientX clientY deltaY s =
     (case canvasRef of
        None \<Rightarrow> s
      | Some canvas \<Rightarrow>
          (let rect = boundingClientRect canvas;
               mouseX = clientX - rect_left rect;
               mouseY = clientY - rect_top rect;
               prevScale = scale s;
               nextScale = clamp (prevScale - deltaY * 0.001) MIN_SCALE MAX_SCALE
           in if nextScale = prevScale then s
              else
                (let ratio = nextScale / prevScale;
                     prevOffset = offset s
                 in s\<lparr> scale := nextScale,
                       offset := \<lparr> x = mouseX - (mouseX - x prevOffset) * ratio,
                                   y = mouseY - (mouseY - y prevOffset) * ratio \<rparr> \<rparr>)))"

subsection \<open>Surface sizing\<close>

text \<open>
  The mount effect reads the container's client size (\<^verbatim>\<open>w || 1200\<close>: a zero falls
  back to the default); the resize observer reads the content rectangle of its entry.
  Both do nothing without a container, and then no observer exists.
\<close>

definition mountEffect :: "Size option \<Rightarrow> 'h GridState \<Rightarrow> 'h GridState" where
  "mountEffect containerRef s =
     (case containerRef of
        None \<Rightarrow> s
      | Some container \<Rightarrow>
          s\<lparr> canvasSize := \<lparr> width = (if width container = 0 then 1200 else width container),
                              height = (if height container = 0 then 800 else height container) \<rparr> \<rparr>)"

definition resizeObserved :: "Size \<Rightarrow> 'h GridState \<Rightarrow> 'h GridState" where
  "resizeObserved contentRect s =
     s\<lparr> canvasSize := \<lparr> width = max (width contentRect) 200,
                         height = max (height contentRect) 200 \<rparr> \<rparr>"

subsection \<open>The component as a transition system\<close>

datatype Event =
    Mount "Size option"
  | Resize Size
  | PointerDown int real real
  | PointerMove int real real
  | PointerUp int
  | PointerLeave
  | Click real real
  | Wheel real real real

text \<open>
  One event, handled in the closure of the latest render. The canvas element is the
  value of \<^verbatim>\<open>canvasRef.current\<close> (with its current bounding rectangle) when the
  event is handled.
\<close>

fun step ::
  "'h CanvasGridProps \<Rightarrow> HTMLCanvasElement option \<Rightarrow> Event \<Rightarrow> 'h GridState \<Rightarrow> 'h GridState"
where
  "step props canvasRef (Mount containerRef) s = mountEffect containerRef s"
| "step props canvasRef (Resize contentRect) s = resizeObserved contentRect s"
| "step props canvasRef (PointerDown pid clientX clientY) s = handlePointerDown pid clientX clientY s"
| "step props canvasRef (PointerMove pid clientX clientY) s =
     handlePointerMove props canvasRef pid clientX clientY s"
| "step props canvasRef (PointerUp pid) s = handlePointerUp pid s"
| "step props canvasRef PointerLeave s = handlePointerLeave props s"
| "step props canvasRef (Click clientX clientY) s = handleClick props canvasRef clientX clientY s"
| "step props canvasRef (Wheel clientX clientY deltaY) s = handleWheel canvasRef clientX clientY deltaY s"

fun run ::
  "'h CanvasGridProps \<Rightarrow> (HTMLCanvasElement option \<times> Event) list \<Rightarrow> 'h GridState \<Rightarrow> 'h GridState"
where
  "run props [] s = s"
| "run props ((canvasRef, e) # es) s = run props es (step props canvasRef e s)"

fun isWheel :: "Event \<Rightarrow> bool" where
  "isWheel (Wheel clientX clientY deltaY) = True"
| "isWheel e = False"


subsection \<open>Rendering\<close>

text \<open>
  The repaint effect is the list of calls it makes on the 2D context, in order. A
  fill or stroke style is a colour string or the linear gradient built for the
  background.
\<close>

datatype Paint =
    Color string
  | LinearGradient real real real real "(real \<times> string) list"

datatype CanvasOp =
    Save
  | SetTransform real real real real real real
  | ClearRect real real real real
  | ScaleBy real real
  | Translate real real
  | FillStyle Paint
  | FillRect real real real real
  | StrokeStyle Paint
  | LineWidth real
  | BeginPath
  | MoveTo real real
  | LineTo real real
  | Stroke
  | StrokeRect real real real real
  | Restore

text \<open>The loop \<^verbatim>\<open>for (let r = 0; r <= rows; r++)\<close>, started at \<open>r\<close>.\<close>

function rowLines :: "int \<Rightarrow> int \<Rightarrow> real \<Rightarrow> real \<Rightarrow> CanvasOp list" where
  "rowLines r nrows csize gridWidth =
     (if r \<le> nrows then
        (let py = of_int r * csize
         in [BeginPath, MoveTo 0 py, LineTo gridWidth py, Stroke]
            @ rowLines (r + 1) nrows csize gridWidth)
      else [])"
  by pat_completeness auto
termination
  by (relation "measure (\<lambda>(r, nrows, csize, gridWidth). nat (nrows + 1 - r))") auto

text \<open>The loop \<^verbatim>\<open>for (let c = 0; c <= cols; c++)\<close>, started at \<open>c\<close>.\<close>

function colLines :: "int \<Rightarrow> int \<Rightarrow> real \<Rightarrow> real \<Rightarrow> CanvasOp list" where
  "colLines c ncols csize gridHeight =
     (if c \<le> ncols then
        (let px = of_int c * csize
         in [BeginPath, MoveTo px 0, LineTo px gridHeight, Stroke]
            @ colLines (c + 1) ncols csize gridHeight)
      else [])"
  by pat_completeness auto
termination
  by (relation "measure (\<lambda>(c, ncols, csize, gridHeight). nat (ncols + 1 - c))") auto

declare rowLines.simps [simp del]
declare colLines.simps [simp del]

definition renderEffect ::
  "'h CanvasGridProps \<Rightarrow> real \<Rightarrow> HTMLCanvasElement option \<Rightarrow> 'h GridState \<Rightarrow> CanvasOp list"
where
  "renderEffect props devicePixelRatio canvasRef s =
     (case canvasRef of
        None \<Rightarrow> []
      | Some canvas \<Rightarrow>
          if \<not> hasContext2d canvas then []
          else
            (let dpr = (if devicePixelRatio = 0 then 1 else devicePixelRatio);
                 gridWidth = of_int (cols props) * cellSize props;
                 gridHeight = of_int (rows props) * cellSize props
             in [Save,
                 SetTransform 1 0 0 1 0 0,
                 ClearRect 0 0 (width (buffer canvas)) (height (buffer canvas)),
                 ScaleBy dpr dpr,
                 Translate (x (offset s)) (y (offset s)),
                 ScaleBy (scale s) (scale s),
                 FillStyle (LinearGradient 0 0 gridWidth gridHeight
                              [(0, ''#0f0f15''), (1, ''#111820'')]),
                 FillRect 0 0 gridWidth gridHeight,
                 StrokeStyle (Color ''#242628''),
                 LineWidth (1 / scale s)]
                @ rowLines 0 (rows props) (cellSize props) gridWidth
                @ colLines 0 (cols props) (cellSize props) gridHeight
                @ (case hoveredCell s of
                     None \<Rightarrow> []
                   | Some hc \<Rightarrow>
                       [FillStyle (Color ''rgba(255,255,255,0.08)''),
                        FillRect (of_int (col hc) * cellSize props)
                                 (of_int (row hc) * cellSize props)
                                 (cellSize props) (cellSize props)])
                @ (case selectedCell s of
                     None \<Rightarrow> []
                   | Some sc \<Rightarrow>
                       [StrokeStyle (Color ''#ff9800''),
                        LineWidth (2 / scale s),
                        StrokeRect (of_int (col sc) * cellSize props + (1 / scale s) * 0.5)
                                   (of_int (row sc) * cellSize props + (1 / scale s) * 0.5)
                                   (cellSize props - 1 / scale s)
                                   (cellSize props - 1 / scale s)])
                @ [Restore]))"

subsection \<open>The host application\<close>

text \<open>
  \<^verbatim>\<open>App\<close> keeps two status strings and passes a 200 by 200 grid of 32-pixel
  cells. The template literal prints an integer in decimal; the placeholder of the
  status line is an en dash, here its three UTF-8 bytes.
\<close>

record AppState =
  hoverCoords :: string
  selectedCoords :: string

fun digitsOf :: "nat \<Rightarrow> string" where
  "digitsOf n =
     (if n < 10 then [''0123456789'' ! n]
      else digitsOf (n div 10) @ [''0123456789'' ! (n mod 10)])"

declare digitsOf.simps [simp del]

definition numberToString :: "int \<Rightarrow> string" where
  "numberToString i = (if i < 0 then ''-'' @ digitsOf (nat (- i)) else digitsOf (nat i))"

definition enDash :: string where
  "enDash = [char_of (226 :: nat), char_of (128 :: nat), char_of (147 :: nat)]"

definition coordsText :: "int \<Rightarrow> int \<Rightarrow> string" where
  "coordsText r c = ''('' @ numberToString r @ '', '' @ numberToString c @ '')''"

definition App_initial :: AppState where
  "App_initial = \<lparr> hoverCoords = enDash, selectedCoords = enDash \<rparr>"

definition App_props :: "AppState CanvasGridProps" where
  "App_props =
     \<lparr> rows = 200,
       cols = 200,
       cellSize = 32,
       onHover = Some (\<lambda>r c a. a\<lparr> hoverCoords := (if r \<ge> 0 \<and> c \<ge> 0 then coordsText r c else enDash) \<rparr>),
       onSelect = Some (\<lambda>r c a. a\<lparr> selectedCoords := coordsText r c \<rparr>) \<rparr>"

subsection \<open>Auxiliary notions and sample inputs\<close>

text \<open>The scale invariant of the view state.\<close>

definition scaleInBounds :: "'h GridState \<Rightarrow> bool" where
  "scaleInBounds s \<longleftrightarrow> MIN_SCALE \<le> scale s \<and> scale s \<le> MAX_SCALE"

fun isStrokeRect :: "CanvasOp \<Rightarrow> bool" where
  "isStrokeRect (StrokeRect px py w h) = True"
| "isStrokeRect op = False"

text \<open>
  A mounted canvas whose bounding rectangle starts at the client origin, so that
  client points and surface points coincide.
\<close>

definition unitCanvas :: HTMLCanvasElement where
  "unitCanvas = \<lparr> boundingClientRect = \<lparr> rect_left = 0, rect_top = 0 \<rparr>,
                  buffer = \<lparr> width = 1200, height = 800 \<rparr>, hasContext2d = True \<rparr>"

text \<open>The host application after a click at surface point (64, 96) in its first render.\<close>

definition clickedState :: "AppState GridState" where
  "clickedState = handleClick App_props (Some unitCanvas) 64 96 (initialState App_initial)"

section \<open>Properties\<close>

subsection \<open>Basic facts about the handlers\<close>

lemma clamp_bounds: "lo \<le> hi \<Longrightarrow> lo \<le> clamp v lo hi \<and> clamp v lo hi \<le> hi"
  by (simp add: clamp_def min_def max_def)

lemma handleWheel_scale:
  "scale (handleWheel (Some canvas) cx cy dy s) = clamp (scale s - dy * 0.001) MIN_SCALE MAX_SCALE"
  by (simp add: handleWheel_def Let_def)

lemma handleWheel_None: "handleWheel None cx cy dy s = s"
  by (simp add: handleWheel_def)

lemma getCell_Some_canvas:
  "getCellFromClientPoint props (Some canvas) s cx cy =
     (let c = \<lfloor>(cx - rect_left (boundingClientRect canvas) - x (offset s)) / scale s / cellSize props\<rfloor>;
          r = \<lfloor>(cy - rect_top (boundingClientRect canvas) - y (offset s)) / scale s / cellSize props\<rfloor>
      in if 0 \<le> r \<and> r < rows props \<and> 0 \<le> c \<and> c < cols props
         then Some \<lparr> row = r, col = c \<rparr> else None)"
  by (auto simp add: getCellFromClientPoint_def Let_def)

lemma floor_cell_bounds:
  fixes v cs :: real and n :: int
  assumes "0 < cs" "0 \<le> v" "v < of_int n * cs"
  shows "0 \<le> \<lfloor>v / cs\<rfloor> \<and> \<lfloor>v / cs\<rfloor> < n"
proof
  from assms show "0 \<le> \<lfloor>v / cs\<rfloor>" by simp
  from assms have "v / cs < of_int n" by (simp add: pos_divide_less_eq)
  then show "\<lfloor>v / cs\<rfloor> < n" by (simp add: floor_less_iff)
qed

lemma app_click_64_96:
  "getCellFromClientPoint App_props (Some unitCanvas) (initialState App_initial) 64 96
     = Some \<lparr> row = 3, col = 2 \<rparr>"
  by (simp add: getCellFromClientPoint_def App_props_def unitCanvas_def initialState_def Let_def)

lemma clickedState_fields:
  "selectedCell clickedState = Some \<lparr> row = 3, col = 2 \<rparr>" "scale clickedState = 1"
  by (simp_all add: clickedState_def handleClick_def app_click_64_96) (simp add: initialState_def)

subsection \<open>Zooming\<close>

text \<open>
  C1. Zoom about the cursor. Take a wheel event at client point \<open>(clientX, clientY)\<close>
  on a mounted canvas and a state whose scale lies between \<open>MIN_SCALE\<close> and
  \<open>MAX_SCALE\<close>. If the handler changes the scale, then with \<open>P\<close> the cursor
  position on the surface (the client point minus the origin of the bounding
  rectangle), the new offset is \<open>P - (P - oldOffset) * (nextScale / prevScale)\<close> on
  each axis, and the grid-space point \<open>(P - offset) / scale\<close> under the cursor is the
  same before and after: mapped forward with the new scale and offset it lands on
  \<open>P\<close> again.
\<close>

theorem wheel_zoom_about_cursor:
  assumes lo: "MIN_SCALE \<le> scale s" and hi: "scale s \<le> MAX_SCALE"
    and changed: "scale (handleWheel (Some canvas) clientX clientY deltaY s) \<noteq> scale s"
  shows "let s' = handleWheel (Some canvas) clientX clientY deltaY s;
             px = clientX - rect_left (boundingClientRect canvas);
             py = clientY - rect_top (boundingClientRect canvas)
         in x (offset s') = px - (px - x (offset s)) * (scale s' / scale s)
          \<and> y (offset s') = py - (py - y (offset s)) * (scale s' / scale s)
          \<and> (px - x (offset s')) / scale s' = (px - x (offset s)) / scale s
          \<and> (py - y (offset s')) / scale s' = (py - y (offset s)) / scale s
          \<and> ((px - x (offset s)) / scale s) * scale s' + x (offset s') = px
          \<and> ((py - y (offset s)) / scale s) * scale s' + y (offset s') = py"
proof -
  define n where "n = clamp (scale s - deltaY * 0.001) MIN_SCALE MAX_SCALE"
  have n_pos: "n > 0"
    using clamp_bounds [of MIN_SCALE MAX_SCALE "scale s - deltaY * 0.001"]
    by (simp add: n_def MIN_SCALE_def MAX_SCALE_def)
  have p_pos: "scale s > 0"
    using lo by (simp add: MIN_SCALE_def)
  have ne: "n \<noteq> scale s"
    using changed by (simp add: handleWheel_scale n_def)
  have sc: "scale (handleWheel (Some canvas) clientX clientY deltaY s) = n"
    by (simp add: handleWheel_scale n_def)
  have ox: "x (offset (handleWheel (Some canvas) clientX clientY deltaY s)) =
      (clientX - rect_left (boundingClientRect canvas))
        - ((clientX - rect_left (boundingClientRect canvas)) - x (offset s)) * (n / scale s)"
    using ne by (simp add: handleWheel_def Let_def n_def)
  have oy: "y (offset (handleWheel (Some canvas) clientX clientY deltaY s)) =
      (clientY - rect_top (boundingClientRect canvas))
        - ((clientY - rect_top (boundingClientRect canvas)) - y (offset s)) * (n / scale s)"
    using ne by (simp add: handleWheel_def Let_def n_def)
  show ?thesis
    unfolding Let_def sc ox oy using n_pos p_pos by (simp add: field_simps)
qed

text \<open>
  The scenario of the specification: from scale 1, a wheel event with
  \<open>deltaY = -1000\<close> at (100, 100) doubles the scale and moves the offset to
  (-100, -100), so that grid point (100, 100) stays under the cursor.
\<close>

theorem wheel_zoom_about_cursor_witness:
  "MIN_SCALE \<le> scale (initialState App_initial)
   \<and> scale (initialState App_initial) \<le> MAX_SCALE
   \<and> scale (handleWheel (Some unitCanvas) 100 100 (- 1000) (initialState App_initial)) = 2
   \<and> offset (handleWheel (Some unitCanvas) 100 100 (- 1000) (initialState App_initial))
       = \<lparr> x = - 100, y = - 100 \<rparr>"
proof -
  let ?s = "initialState App_initial"
  have sc: "scale (handleWheel (Some unitCanvas) 100 100 (- 1000) ?s) = 2"
    by (simp add: handleWheel_scale clamp_def MIN_SCALE_def MAX_SCALE_def initialState_def)
  have h1: "MIN_SCALE \<le> scale ?s" and h2: "scale ?s \<le> MAX_SCALE"
    by (simp_all add: initialState_def MIN_SCALE_def MAX_SCALE_def)
  have h3: "scale (handleWheel (Some unitCanvas) 100 100 (- 1000) ?s) \<noteq> scale ?s"
    by (simp add: sc) (simp add: initialState_def)
  have s0: "scale ?s = 1" "x (offset ?s) = 0" "y (offset ?s) = 0"
    by (simp_all add: initialState_def)
  have r0: "rect_left (boundingClientRect unitCanvas) = 0"
    "rect_top (boundingClientRect unitCanvas) = 0"
    by (simp_all add: unitCanvas_def)
  from wheel_zoom_about_cursor [OF h1 h2 h3]
  have "x (offset (handleWheel (Some unitCanvas) 100 100 (- 1000) ?s)) = - 100"
    and "y (offset (handleWheel (Some unitCanvas) 100 100 (- 1000) ?s)) = - 100"
    by (simp_all add: Let_def sc s0 r0)
  then have "offset (handleWheel (Some unitCanvas) 100 100 (- 1000) ?s) = \<lparr> x = - 100, y = - 100 \<rparr>"
    by (cases "offset (handleWheel (Some unitCanvas) 100 100 (- 1000) ?s)") simp
  with h1 h2 sc show ?thesis by simp
qed

text \<open>
  C8. Wheel no-op. The bounds are 0.25 and 4. On a mounted canvas the scale after a
  wheel event is \<open>clamp (prevScale - deltaY * 0.001) 0.25 4\<close>; whenever that value
  equals the previous scale the handler returns the state as it was, so neither
  scale nor offset (nor any other field) changes. This is the case for
  \<open>deltaY = 0\<close> at a scale within the bounds, for zooming in at the upper bound
  and for zooming out at the lower bound.
\<close>

theorem wheel_noop_when_scale_unchanged:
  "MIN_SCALE = 0.25 \<and> MAX_SCALE = 4
   \<and> scale (handleWheel (Some canvas) clientX clientY deltaY s)
       = clamp (scale s - deltaY * 0.001) 0.25 4
   \<and> (clamp (scale s - deltaY * 0.001) 0.25 4 = scale s
        \<longrightarrow> handleWheel canvasRef clientX clientY deltaY s = s)
   \<and> (0.25 \<le> scale s \<and> scale s \<le> 4 \<longrightarrow> handleWheel canvasRef clientX clientY 0 s = s)
   \<and> (scale s = 4 \<and> deltaY \<le> 0 \<longrightarrow> handleWheel canvasRef clientX clientY deltaY s = s)
   \<and> (scale s = 0.25 \<and> deltaY \<ge> 0 \<longrightarrow> handleWheel canvasRef clientX clientY deltaY s = s)"
  by (cases canvasRef)
     (simp_all add: handleWheel_def Let_def clamp_def MIN_SCALE_def MAX_SCALE_def min_def max_def)

theorem wheel_noop_when_scale_unchanged_witness:
  "handleWheel (Some unitCanvas) 100 100 (- 250) ((initialState App_initial)\<lparr> scale := 4 \<rparr>)
     = (initialState App_initial)\<lparr> scale := 4 \<rparr>
   \<and> handleWheel (Some unitCanvas) 100 100 0 (initialState App_initial) = initialState App_initial
   \<and> handleWheel (Some unitCanvas) 100 100 250 ((initialState App_initial)\<lparr> scale := 0.25 \<rparr>)
     = (initialState App_initial)\<lparr> scale := 0.25 \<rparr>"
proof -
  note a = wheel_noop_when_scale_unchanged [where canvasRef = "Some unitCanvas" and canvas = unitCanvas
      and clientX = 100 and clientY = 100 and deltaY = "- 250"
      and s = "(initialState App_initial)\<lparr> scale := 4 \<rparr>"]
  note b = wheel_noop_when_scale_unchanged [where canvasRef = "Some unitCanvas" and canvas = unitCanvas
      and clientX = 100 and clientY = 100 and deltaY = 0
      and s = "initialState App_initial"]
  note c = wheel_noop_when_scale_unchanged [where canvasRef = "Some unitCanvas" and canvas = unitCanvas
      and clientX = 100 and clientY = 100 and deltaY = 250
      and s = "(initialState App_initial)\<lparr> scale := 0.25 \<rparr>"]
  have "clamp (4 - (- 250) * 0.001) 0.25 4 = (4 :: real)" by (simp add: clamp_def)
  with a have "handleWheel (Some unitCanvas) 100 100 (- 250) ((initialState App_initial)\<lparr> scale := 4 \<rparr>)
     = (initialState App_initial)\<lparr> scale := 4 \<rparr>"
    by (simp add: MIN_SCALE_def MAX_SCALE_def)
  moreover from b
  have "handleWheel (Some unitCanvas) 100 100 0 (initialState App_initial) = initialState App_initial"
    by (simp add: initialState_def MIN_SCALE_def MAX_SCALE_def)
  moreover from c
  have "handleWheel (Some unitCanvas) 100 100 250 ((initialState App_initial)\<lparr> scale := 0.25 \<rparr>)
     = (initialState App_initial)\<lparr> scale := 0.25 \<rparr>"
    by (simp add: MIN_SCALE_def MAX_SCALE_def)
  ultimately show ?thesis by simp
qed

subsection \<open>The scale invariant\<close>

lemma step_scale_frame: "\<not> isWheel e \<Longrightarrow> scale (step props canvasRef e s) = scale s"
  by (cases e)
     (simp_all add: mountEffect_def resizeObserved_def handlePointerDown_def
        handlePointerMove_def handlePointerUp_def handlePointerLeave_def handleClick_def
        Let_def split: option.splits)

lemma handleWheel_scaleInBounds:
  "scaleInBounds s \<Longrightarrow> scaleInBounds (handleWheel canvasRef cx cy dy s)"
proof (cases canvasRef)
  case None
  then show "scaleInBounds s \<Longrightarrow> ?thesis" by (simp add: handleWheel_None)
next
  case (Some canvas)
  have "MIN_SCALE \<le> MAX_SCALE" by (simp add: MIN_SCALE_def MAX_SCALE_def)
  then show ?thesis
    using clamp_bounds [of MIN_SCALE MAX_SCALE "scale s - dy * 0.001"]
    by (simp add: Some scaleInBounds_def handleWheel_scale)
qed

lemma step_scaleInBounds: "scaleInBounds s \<Longrightarrow> scaleInBounds (step props canvasRef e s)"
proof (cases "isWheel e")
  case True
  then obtain cx cy dy where "e = Wheel cx cy dy" by (cases e) simp_all
  then show "scaleInBounds s \<Longrightarrow> ?thesis" by (simp add: handleWheel_scaleInBounds)
next
  case False
  then show "scaleInBounds s \<Longrightarrow> ?thesis"
    by (simp add: scaleInBounds_def step_scale_frame)
qed

lemma run_scaleInBounds: "scaleInBounds s \<Longrightarrow> scaleInBounds (run props es s)"
proof (induction es arbitrary: s)
  case Nil
  then show ?case by simp
next
  case (Cons ce es)
  obtain canvasRef e where ce: "ce = (canvasRef, e)" by (cases ce)
  from Cons.prems have "scaleInBounds (step props canvasRef e s)"
    by (rule step_scaleInBounds)
  then show ?case by (simp add: ce Cons.IH)
qed

lemma initialState_scaleInBounds: "scaleInBounds (initialState h)"
  by (simp add: scaleInBounds_def initialState_def MIN_SCALE_def MAX_SCALE_def)

text \<open>
  C2. Scale bounds. From the initial state (scale 1), after any sequence of events
  (wheel events with any \<open>deltaY\<close>, mixed with any other events, on a mounted or an
  unmounted canvas) the scale satisfies \<open>0.25 \<le> scale \<le> 4.0\<close>; and an event that is
  not a wheel event leaves the scale as it was.
\<close>

theorem scale_bounds_invariant:
  "0.25 \<le> scale (run props es (initialState h))
   \<and> scale (run props es (initialState h)) \<le> 4.0
   \<and> (\<not> isWheel e \<longrightarrow> scale (step props canvasRef e s) = scale s)"
  using run_scaleInBounds [OF initialState_scaleInBounds, of props es h]
  by (simp add: scaleInBounds_def MIN_SCALE_def MAX_SCALE_def step_scale_frame)

text \<open>Two zoom-in events that together ask for scale 7 stop at 4; a click keeps scale 1.\<close>

theorem scale_bounds_invariant_witness:
  "scale (run App_props
            [(Some unitCanvas, Wheel 100 100 (- 1000)), (Some unitCanvas, Wheel 100 100 (- 5000))]
            (initialState App_initial)) = 4
   \<and> \<not> isWheel (Click 64 96)
   \<and> scale (step App_props (Some unitCanvas) (Click 64 96) (initialState App_initial)) = 1"
proof -
  let ?es = "[(Some unitCanvas, Wheel 100 100 (- 1000)), (Some unitCanvas, Wheel 100 100 (- 5000))]"
  note a = scale_bounds_invariant [where props = App_props and es = ?es and h = App_initial
      and e = "Click 64 96" and canvasRef = "Some unitCanvas" and s = "initialState App_initial"]
  have "scale (run App_props ?es (initialState App_initial)) = 4"
    by (simp add: handleWheel_scale clamp_def MIN_SCALE_def MAX_SCALE_def)
  moreover from a
  have "scale (step App_props (Some unitCanvas) (Click 64 96) (initialState App_initial)) = 1"
    by (simp add: initialState_def)
  ultimately show ?thesis by simp
qed

subsection \<open>Hit testing\<close>

text \<open>
  C3. Hit test. On a mounted canvas the hit tester takes
  \<open>gridX = (clientX - surfaceLeft - offset.x) / scale\<close> (and \<open>gridY\<close> alike),
  \<open>col = floor (gridX / cellSize)\<close>, \<open>row = floor (gridY / cellSize)\<close>; it returns
  no cell exactly when \<open>row\<close> or \<open>col\<close> is outside \<open>[0, rows) \<times> [0, cols)\<close> and the
  cell \<open>(row, col)\<close> otherwise. Under the identity view (offset (0, 0), scale 1,
  surface origin 0) every point inside the grid extent yields
  \<open>(floor (y / cellSize), floor (x / cellSize))\<close>. Scale and cell size are not
  zero.
\<close>

theorem hit_test_correct:
  assumes "canvasRef = Some canvas" and "scale s \<noteq> 0" and "cellSize props \<noteq> 0"
  shows "let gridX = (clientX - rect_left (boundingClientRect canvas) - x (offset s)) / scale s;
             gridY = (clientY - rect_top (boundingClientRect canvas) - y (offset s)) / scale s;
             c = \<lfloor>gridX / cellSize props\<rfloor>;
             r = \<lfloor>gridY / cellSize props\<rfloor>;
             inside = (0 \<le> r \<and> r < rows props \<and> 0 \<le> c \<and> c < cols props)
         in (getCellFromClientPoint props canvasRef s clientX clientY = None \<longleftrightarrow> \<not> inside)
          \<and> (inside \<longrightarrow>
               getCellFromClientPoint props canvasRef s clientX clientY = Some \<lparr> row = r, col = c \<rparr>)
          \<and> (offset s = \<lparr> x = 0, y = 0 \<rparr> \<and> scale s = 1
               \<and> rect_left (boundingClientRect canvas) = 0 \<and> rect_top (boundingClientRect canvas) = 0
               \<and> 0 < cellSize props
               \<and> 0 \<le> clientX \<and> clientX < of_int (cols props) * cellSize props
               \<and> 0 \<le> clientY \<and> clientY < of_int (rows props) * cellSize props
              \<longrightarrow> getCellFromClientPoint props canvasRef s clientX clientY =
                    Some \<lparr> row = \<lfloor>clientY / cellSize props\<rfloor>, col = \<lfloor>clientX / cellSize props\<rfloor> \<rparr>)"
proof -
  have ident: "getCellFromClientPoint props canvasRef s clientX clientY =
      Some \<lparr> row = \<lfloor>clientY / cellSize props\<rfloor>, col = \<lfloor>clientX / cellSize props\<rfloor> \<rparr>"
    if "offset s = \<lparr> x = 0, y = 0 \<rparr>" "scale s = 1"
      "rect_left (boundingClientRect canvas) = 0" "rect_top (boundingClientRect canvas) = 0"
      "0 < cellSize props"
      "0 \<le> clientX" "clientX < of_int (cols props) * cellSize props"
      "0 \<le> clientY" "clientY < of_int (rows props) * cellSize props"
  proof -
    have "0 \<le> \<lfloor>clientX / cellSize props\<rfloor> \<and> \<lfloor>clientX / cellSize props\<rfloor> < cols props"
      using that by (intro floor_cell_bounds) simp_all
    moreover have "0 \<le> \<lfloor>clientY / cellSize props\<rfloor> \<and> \<lfloor>clientY / cellSize props\<rfloor> < rows props"
      using that by (intro floor_cell_bounds) simp_all
    ultimately show ?thesis
      using that by (simp add: assms(1) getCell_Some_canvas Let_def)
  qed
  show ?thesis
    unfolding Let_def
    apply (intro conjI impI)
    subgoal by (simp add: assms(1) getCell_Some_canvas Let_def)
    subgoal by (simp add: assms(1) getCell_Some_canvas Let_def)
    subgoal by (rule ident) simp_all
    done
qed

text \<open>In the host's grid, (64, 96) is in cell (3, 2) and (6400, 96) is right of the last column.\<close>

theorem hit_test_correct_witness:
  "getCellFromClientPoint App_props (Some unitCanvas) (initialState App_initial) 64 96
     = Some \<lparr> row = 3, col = 2 \<rparr>
   \<and> getCellFromClientPoint App_props (Some unitCanvas) (initialState App_initial) 6400 96 = None"
proof -
  have h: "Some unitCanvas = Some unitCanvas" by simp
  have h2: "scale (initialState App_initial) \<noteq> 0" by (simp add: initialState_def)
  have h3: "cellSize App_props \<noteq> 0" by (simp add: App_props_def)
  note a = hit_test_correct [OF h h2 h3, where clientX = 64 and clientY = 96]
  note b = hit_test_correct [OF h h2 h3, where clientX = 6400 and clientY = 96]
  from a have "getCellFromClientPoint App_props (Some unitCanvas) (initialState App_initial) 64 96
     = Some \<lparr> row = 3, col = 2 \<rparr>"
    by (simp add: App_props_def unitCanvas_def initialState_def Let_def)
  moreover from b
  have "getCellFromClientPoint App_props (Some unitCanvas) (initialState App_initial) 6400 96 = None"
    by (simp add: App_props_def unitCanvas_def initialState_def Let_def)
  ultimately show ?thesis by simp
qed

subsection \<open>Panning\<close>

text \<open>
  C4. Pan translation. During an active drag (the gesture recorded origin offset
  \<open>O\<close> and client start \<open>S\<close>), a pointer-move with the gesture's pointer id at client
  point \<open>C\<close> sets \<open>offset = O + (C - S)\<close>. The result is the same for every value of
  the scale. After a pointer-down at \<open>S\<close> in a state with offset \<open>O\<close>, a move of
  that pointer by \<open>(dx, dy)\<close> gives offset \<open>O + (dx, dy)\<close>.
\<close>

theorem pan_translation:
  assumes "dragging (panState s)" and "pointerId (panState s) = pid"
  shows "offset (handlePointerMove props canvasRef pid clientX clientY s)
           = \<lparr> x = x (origin (panState s)) + (clientX - x (start (panState s))),
               y = y (origin (panState s)) + (clientY - y (start (panState s))) \<rparr>
       \<and> offset (handlePointerMove props canvasRef pid clientX clientY (s\<lparr> scale := k \<rparr>))
           = offset (handlePointerMove props canvasRef pid clientX clientY s)
       \<and> offset (handlePointerMove props canvasRef pid (startX + dx) (startY + dy)
                  (handlePointerDown pid startX startY s0))
           = \<lparr> x = x (offset s0) + dx, y = y (offset s0) + dy \<rparr>"
  using assms by (simp add: handlePointerMove_def handlePointerDown_def Let_def)

theorem pan_translation_witness:
  "dragging (panState (handlePointerDown 1 10 20 (initialState App_initial)))
   \<and> pointerId (panState (handlePointerDown 1 10 20 (initialState App_initial))) = 1
   \<and> offset (handlePointerMove App_props (Some unitCanvas) 1 17 15
               (handlePointerDown 1 10 20 (initialState App_initial)))
       = \<lparr> x = 7, y = - 5 \<rparr>"
proof -
  let ?d = "handlePointerDown 1 10 20 (initialState App_initial)"
  have h1: "dragging (panState ?d)" and h2: "pointerId (panState ?d) = 1"
    by (simp_all add: handlePointerDown_def)
  note a = pan_translation [OF h1 h2, where props = App_props and canvasRef = "Some unitCanvas"
      and clientX = 17 and clientY = 15]
  from a have "offset (handlePointerMove App_props (Some unitCanvas) 1 17 15 ?d) = \<lparr> x = 7, y = - 5 \<rparr>"
    by (simp add: handlePointerDown_def initialState_def)
  with h1 h2 show ?thesis by simp
qed

text \<open>
  C10. Hover during a drag. On a pointer-move of the dragging pointer the offset
  becomes the panned offset, while the hovered cell that is stored and passed to
  \<open>onHover\<close> is the hit test under the state the event arrived in, that is with the
  offset before this event's pan update. In the host's grid, after a pointer-down
  at (0, 0), a move to (40, 0) reports cell (0, 1), whereas the hit test of the same
  point under the panned offset is cell (0, 0).
\<close>

theorem hover_uses_offset_before_pan:
  assumes "dragging (panState s)" and "pointerId (panState s) = pid"
  shows "offset (handlePointerMove props canvasRef pid clientX clientY s)
           = \<lparr> x = x (origin (panState s)) + (clientX - x (start (panState s))),
               y = y (origin (panState s)) + (clientY - y (start (panState s))) \<rparr>
       \<and> hoveredCell (handlePointerMove props canvasRef pid clientX clientY s)
           = getCellFromClientPoint props canvasRef s clientX clientY
       \<and> host (handlePointerMove props canvasRef pid clientX clientY s)
           = optCall (onHover props)
               (case getCellFromClientPoint props canvasRef s clientX clientY of
                  Some c \<Rightarrow> row c | None \<Rightarrow> - 1)
               (case getCellFromClientPoint props canvasRef s clientX clientY of
                  Some c \<Rightarrow> col c | None \<Rightarrow> - 1)
               (host s)
       \<and> hoveredCell (handlePointerMove App_props (Some unitCanvas) 1 40 0
            (handlePointerDown 1 0 0 (initialState App_initial)))
           = Some \<lparr> row = 0, col = 1 \<rparr>
       \<and> getCellFromClientPoint App_props (Some unitCanvas)
            (handlePointerMove App_props (Some unitCanvas) 1 40 0
               (handlePointerDown 1 0 0 (initialState App_initial))) 40 0
           = Some \<lparr> row = 0, col = 0 \<rparr>"
proof (intro conjI)
  let ?d = "handlePointerDown 1 0 0 (initialState App_initial)"
  have pre: "getCellFromClientPoint App_props (Some unitCanvas) ?d 40 0 = Some \<lparr> row = 0, col = 1 \<rparr>"
    by (simp add: getCell_Some_canvas handlePointerDown_def initialState_def App_props_def
          unitCanvas_def Let_def)
  show "hoveredCell (handlePointerMove App_props (Some unitCanvas) 1 40 0 ?d) = Some \<lparr> row = 0, col = 1 \<rparr>"
    by (simp add: handlePointerMove_def Let_def pre)
  have off: "offset (handlePointerMove App_props (Some unitCanvas) 1 40 0 ?d) = \<lparr> x = 40, y = 0 \<rparr>"
    and sc: "scale (handlePointerMove App_props (Some unitCanvas) 1 40 0 ?d) = 1"
    by (simp_all add: handlePointerMove_def handlePointerDown_def initialState_def Let_def)
  show "getCellFromClientPoint App_props (Some unitCanvas)
          (handlePointerMove App_props (Some unitCanvas) 1 40 0 ?d) 40 0 = Some \<lparr> row = 0, col = 0 \<rparr>"
    unfolding getCell_Some_canvas off sc
    by (simp add: App_props_def unitCanvas_def Let_def)
qed (simp_all add: assms handlePointerMove_def Let_def)

theorem hover_uses_offset_before_pan_witness:
  "dragging (panState (handlePointerDown 1 0 0 (initialState App_initial)))
   \<and> hoveredCell (handlePointerMove App_props (Some unitCanvas) 1 40 0
        (handlePointerDown 1 0 0 (initialState App_initial)))
       = getCellFromClientPoint App_props (Some unitCanvas)
           (handlePointerDown 1 0 0 (initialState App_initial)) 40 0
   \<and> offset (handlePointerMove App_props (Some unitCanvas) 1 40 0
        (handlePointerDown 1 0 0 (initialState App_initial))) = \<lparr> x = 40, y = 0 \<rparr>"
proof -
  let ?d = "handlePointerDown 1 0 0 (initialState App_initial)"
  have h1: "dragging (panState ?d)" and h2: "pointerId (panState ?d) = 1"
    by (simp_all add: handlePointerDown_def)
  note a = hover_uses_offset_before_pan [OF h1 h2, where props = App_props
      and canvasRef = "Some unitCanvas" and clientX = 40 and clientY = 0]
  from a h1 show ?thesis by (simp add: handlePointerDown_def initialState_def)
qed

subsection \<open>Callbacks\<close>

text \<open>
  C5. Selection. On a mounted canvas, with scale and cell size not zero, let
  \<open>col = floor ((clientX - surfaceLeft - offset.x) / scale / cellSize)\<close> and \<open>row\<close>
  alike from \<open>clientY\<close>. When \<open>(row, col)\<close> lies in \<open>[0, rows) \<times> [0, cols)\<close>, the click
  stores that cell as the selected cell and invokes \<open>onSelect\<close> once with \<open>row\<close> and
  \<open>col\<close>; when it lies outside, the click changes nothing, so \<open>onSelect\<close> is not
  invoked. In terms of the hit tester: a click that hit-tests to a cell selects it
  and invokes \<open>onSelect\<close> once with it, and a click that hit-tests to no cell
  changes nothing. With a 200 by 200 grid of 32-pixel cells under the identity view, a click
  at surface point (64, 96) selects cell (row 3, col 2) and invokes
  \<open>onSelect 3 2\<close> once; in the host application the status text becomes
  \<open>(3, 2)\<close>.
\<close>

theorem click_selects_in_grid_only:
  "(canvasRef = Some canvas \<and> scale s \<noteq> 0 \<and> cellSize props \<noteq> 0 \<and> onSelect props = Some f
      \<longrightarrow> (let c = \<lfloor>(clientX - rect_left (boundingClientRect canvas) - x (offset s))
                         / scale s / cellSize props\<rfloor>;
                  r = \<lfloor>(clientY - rect_top (boundingClientRect canvas) - y (offset s))
                         / scale s / cellSize props\<rfloor>;
                  inside = (0 \<le> r \<and> r < rows props \<and> 0 \<le> c \<and> c < cols props)
              in (inside \<longrightarrow>
                    selectedCell (handleClick props canvasRef clientX clientY s)
                      = Some \<lparr> row = r, col = c \<rparr>
                    \<and> host (handleClick props canvasRef clientX clientY s) = f r c (host s))
               \<and> (\<not> inside \<longrightarrow> handleClick props canvasRef clientX clientY s = s)))
   \<and> (getCellFromClientPoint props canvasRef s clientX clientY = Some cell \<and> onSelect props = Some f
      \<longrightarrow> selectedCell (handleClick props canvasRef clientX clientY s) = Some cell
        \<and> host (handleClick props canvasRef clientX clientY s) = f (row cell) (col cell) (host s))
   \<and> (getCellFromClientPoint props canvasRef s clientX clientY = None
      \<longrightarrow> handleClick props canvasRef clientX clientY s = s)
   \<and> (rows props = 200 \<and> cols props = 200 \<and> cellSize props = 32 \<and> onSelect props = Some f
        \<and> offset s = \<lparr> x = 0, y = 0 \<rparr> \<and> scale s = 1 \<and> canvasRef = Some canvas
        \<and> clientX - rect_left (boundingClientRect canvas) = 64
        \<and> clientY - rect_top (boundingClientRect canvas) = 96
      \<longrightarrow> selectedCell (handleClick props canvasRef clientX clientY s) = Some \<lparr> row = 3, col = 2 \<rparr>
        \<and> host (handleClick props canvasRef clientX clientY s) = f 3 2 (host s))
   \<and> selectedCoords (host (handleClick App_props (Some unitCanvas) 64 96 (initialState App_initial)))
       = ''(3, 2)''"
proof (intro conjI impI)
  show "selectedCoords (host (handleClick App_props (Some unitCanvas) 64 96 (initialState App_initial)))
       = ''(3, 2)''"
  proof -
    have "host (handleClick App_props (Some unitCanvas) 64 96 (initialState App_initial))
        = optCall (onSelect App_props) 3 2 App_initial"
      by (simp add: handleClick_def app_click_64_96) (simp add: initialState_def)
    also have "selectedCoords \<dots> = coordsText 3 2"
      by (simp add: optCall_def App_props_def)
    also have "\<dots> = ''(3, 2)''"
      by (simp add: coordsText_def numberToString_def digitsOf.simps)
    finally show ?thesis .
  qed
qed (simp_all add: handleClick_def optCall_def getCell_Some_canvas Let_def)

text \<open>
  With a host that records the calls it receives, the click at (64, 96) leaves
  exactly one recorded call, (3, 2), and a click right of the grid leaves none.
\<close>

theorem click_selects_in_grid_only_witness:
  "host (handleClick
          \<lparr> rows = 200, cols = 200, cellSize = 32, onHover = None,
            onSelect = Some (\<lambda>r c calls. calls @ [(r, c)]) \<rparr>
          (Some unitCanvas) 64 96 (initialState [])) = [(3, 2)]
   \<and> host (handleClick
          \<lparr> rows = 200, cols = 200, cellSize = 32, onHover = None,
            onSelect = Some (\<lambda>r c calls. calls @ [(r, c)]) \<rparr>
          (Some unitCanvas) 6464 96 (initialState [])) = []
   \<and> host (handleClick
          \<lparr> rows = 200, cols = 200, cellSize = 32, onHover = None,
            onSelect = Some (\<lambda>r c calls. calls @ [(r, c)]) \<rparr>
          (Some unitCanvas) 40 40 (initialState [])) = [(1, 1)]
   \<and> host (handleClick
          \<lparr> rows = 200, cols = 200, cellSize = 32, onHover = None,
            onSelect = Some (\<lambda>r c calls. calls @ [(r, c)]) \<rparr>
          (Some unitCanvas) (- 5) 96 (initialState [])) = []"
proof -
  let ?p = "\<lparr> rows = 200, cols = 200, cellSize = 32, onHover = None,
            onSelect = Some (\<lambda>r c calls. calls @ [(r :: int, c :: int)]) \<rparr>"
  note a = click_selects_in_grid_only [where props = ?p and canvasRef = "Some unitCanvas"
      and canvas = unitCanvas and s = "initialState []" and clientX = 64 and clientY = 96
      and f = "\<lambda>r c calls. calls @ [(r, c)]" and cell = "\<lparr> row = 3, col = 2 \<rparr>"]
  note b = click_selects_in_grid_only [where props = ?p and canvasRef = "Some unitCanvas"
      and canvas = unitCanvas and s = "initialState []" and clientX = 6464 and clientY = 96
      and f = "\<lambda>r c calls. calls @ [(r, c)]" and cell = "\<lparr> row = 3, col = 2 \<rparr>"]
  have g1: "getCellFromClientPoint ?p (Some unitCanvas) (initialState []) 64 96
      = Some \<lparr> row = 3, col = 2 \<rparr>"
    by (simp add: getCell_Some_canvas unitCanvas_def initialState_def Let_def)
  have g2: "getCellFromClientPoint ?p (Some unitCanvas) (initialState []) 6464 96 = None"
    by (simp add: getCell_Some_canvas unitCanvas_def initialState_def Let_def)
  from a g1 have "host (handleClick ?p (Some unitCanvas) 64 96 (initialState [])) = [(3, 2)]"
    by (simp add: initialState_def)
  moreover from b g2 have "host (handleClick ?p (Some unitCanvas) 6464 96 (initialState [])) = []"
    by (simp add: initialState_def)
  moreover
  have r0: "rect_left (boundingClientRect unitCanvas) = 0"
    "rect_top (boundingClientRect unitCanvas) = 0"
    by (simp_all add: unitCanvas_def)
  have s0: "scale (initialState []) = 1" "x (offset (initialState [])) = 0"
    "y (offset (initialState [])) = 0" "host (initialState []) = []"
    by (simp_all add: initialState_def)
  have "host (handleClick ?p (Some unitCanvas) 40 40 (initialState [])) = [(1, 1)]"
  proof -
    note c = click_selects_in_grid_only [where props = ?p and canvasRef = "Some unitCanvas"
        and canvas = unitCanvas and s = "initialState []" and clientX = 40 and clientY = 40
        and f = "\<lambda>r c calls. calls @ [(r, c)]" and cell = "\<lparr> row = 1, col = 1 \<rparr>"]
    from c [THEN conjunct1] show ?thesis
      by (simp add: Let_def r0 s0)
  qed
  moreover have "host (handleClick ?p (Some unitCanvas) (- 5) 96 (initialState [])) = []"
  proof -
    note d = click_selects_in_grid_only [where props = ?p and canvasRef = "Some unitCanvas"
        and canvas = unitCanvas and s = "initialState []" and clientX = "- 5" and clientY = 96
        and f = "\<lambda>r c calls. calls @ [(r, c)]" and cell = "\<lparr> row = 3, col = 2 \<rparr>"]
    from d [THEN conjunct1] show ?thesis
      by (simp add: Let_def r0 s0)
  qed
  ultimately show ?thesis by simp
qed

text \<open>
  C6. Hover sentinel. With an \<open>onHover\<close> callback supplied, every pointer-move
  invokes it once: with the row and column of the hit-tested cell when the point
  maps to a cell, which (for a scale and a cell size that are not zero) is the case
  exactly when the canvas is mounted and the floored grid coordinates lie in
  \<open>[0, rows) \<times> [0, cols)\<close>, and with \<open>(-1, -1)\<close> when it maps to no cell. A pointer-leave clears the hovered cell and invokes
  \<open>onHover (-1) (-1)\<close>.
\<close>

theorem hover_reports_cell_or_sentinel:
  assumes "onHover props = Some f"
  shows "(getCellFromClientPoint props canvasRef s clientX clientY = Some cell
            \<longrightarrow> hoveredCell (handlePointerMove props canvasRef pid clientX clientY s) = Some cell
              \<and> host (handlePointerMove props canvasRef pid clientX clientY s)
                  = f (row cell) (col cell) (host s))
       \<and> (getCellFromClientPoint props canvasRef s clientX clientY = None
            \<longrightarrow> hoveredCell (handlePointerMove props canvasRef pid clientX clientY s) = None
              \<and> host (handlePointerMove props canvasRef pid clientX clientY s)
                  = f (- 1) (- 1) (host s))
       \<and> (scale s \<noteq> 0 \<and> cellSize props \<noteq> 0 \<longrightarrow>
           (getCellFromClientPoint props canvasRef s clientX clientY = Some cell
            \<longleftrightarrow> (\<exists>canvas. canvasRef = Some canvas
                  \<and> row cell = \<lfloor>(clientY - rect_top (boundingClientRect canvas) - y (offset s))
                                  / scale s / cellSize props\<rfloor>
                  \<and> col cell = \<lfloor>(clientX - rect_left (boundingClientRect canvas) - x (offset s))
                                  / scale s / cellSize props\<rfloor>
                  \<and> 0 \<le> row cell \<and> row cell < rows props \<and> 0 \<le> col cell \<and> col cell < cols props)))
       \<and> hoveredCell (handlePointerLeave props s) = None
       \<and> host (handlePointerLeave props s) = f (- 1) (- 1) (host s)"
proof (intro conjI impI)
  show "getCellFromClientPoint props canvasRef s clientX clientY = Some cell
            \<longleftrightarrow> (\<exists>canvas. canvasRef = Some canvas
                  \<and> row cell = \<lfloor>(clientY - rect_top (boundingClientRect canvas) - y (offset s))
                                  / scale s / cellSize props\<rfloor>
                  \<and> col cell = \<lfloor>(clientX - rect_left (boundingClientRect canvas) - x (offset s))
                                  / scale s / cellSize props\<rfloor>
                  \<and> 0 \<le> row cell \<and> row cell < rows props \<and> 0 \<le> col cell \<and> col cell < cols props)"
    by (cases canvasRef; cases cell) (auto simp add: getCellFromClientPoint_def Let_def)
qed (simp_all add: assms handlePointerMove_def handlePointerLeave_def optCall_def Let_def)

text \<open>
  With a recording host: a move over cell (3, 2), a move left of the grid and a
  pointer-leave record (3, 2), (-1, -1) and (-1, -1).
\<close>

theorem hover_reports_cell_or_sentinel_witness:
  "host (handlePointerMove
          \<lparr> rows = 200, cols = 200, cellSize = 32,
            onHover = Some (\<lambda>r c calls. calls @ [(r, c)]), onSelect = None \<rparr>
          (Some unitCanvas) 1 64 96 (initialState [])) = [(3, 2)]
   \<and> host (handlePointerMove
          \<lparr> rows = 200, cols = 200, cellSize = 32,
            onHover = Some (\<lambda>r c calls. calls @ [(r, c)]), onSelect = None \<rparr>
          (Some unitCanvas) 1 (- 5) 96 (initialState [])) = [(- 1, - 1)]
   \<and> host (handlePointerLeave
          \<lparr> rows = 200, cols = 200, cellSize = 32,
            onHover = Some (\<lambda>r c calls. calls @ [(r, c)]), onSelect = None \<rparr>
          (initialState [])) = [(- 1, - 1)]"
proof -
  let ?f = "\<lambda>(r :: int) (c :: int) calls. calls @ [(r, c)]"
  let ?p = "\<lparr> rows = 200, cols = 200, cellSize = 32, onHover = Some ?f, onSelect = None \<rparr>"
  have h: "onHover ?p = Some ?f" by simp
  note a = hover_reports_cell_or_sentinel [OF h, where canvasRef = "Some unitCanvas"
      and s = "initialState []" and clientX = 64 and clientY = 96 and pid = 1
      and cell = "\<lparr> row = 3, col = 2 \<rparr>"]
  note b = hover_reports_cell_or_sentinel [OF h, where canvasRef = "Some unitCanvas"
      and s = "initialState []" and clientX = "- 5" and clientY = 96 and pid = 1
      and cell = "\<lparr> row = 3, col = 2 \<rparr>"]
  have g1: "getCellFromClientPoint ?p (Some unitCanvas) (initialState []) 64 96
      = Some \<lparr> row = 3, col = 2 \<rparr>"
    by (simp add: getCell_Some_canvas unitCanvas_def initialState_def Let_def)
  have g2: "getCellFromClientPoint ?p (Some unitCanvas) (initialState []) (- 5) 96 = None"
    by (simp add: getCell_Some_canvas unitCanvas_def initialState_def Let_def)
  from a g1 have "host (handlePointerMove ?p (Some unitCanvas) 1 64 96 (initialState [])) = [(3, 2)]"
    by (simp add: initialState_def)
  moreover from b g2
  have "host (handlePointerMove ?p (Some unitCanvas) 1 (- 5) 96 (initialState [])) = [(- 1, - 1)]"
    by (simp add: initialState_def)
  moreover from a have "host (handlePointerLeave ?p (initialState [])) = [(- 1, - 1)]"
    by (simp add: initialState_def)
  ultimately show ?thesis by simp
qed

subsection \<open>End of a pan gesture\<close>







subsection \<open>The selection outline\<close>

lemma rowLines_no_StrokeRect: "\<forall>op \<in> set (rowLines r n cs gw). \<not> isStrokeRect op"
proof (induction r n cs gw rule: rowLines.induct)
  case (1 r n cs gw)
  then show ?case
    by (subst rowLines.simps) (auto simp add: Let_def)
qed

lemma colLines_no_StrokeRect: "\<forall>op \<in> set (colLines c n cs gh). \<not> isStrokeRect op"
proof (induction c n cs gh rule: colLines.induct)
  case (1 c n cs gh)
  then show ?case
    by (subst colLines.simps) (auto simp add: Let_def)
qed

lemma renderEffect_selected:
  assumes "hasContext2d canvas" and "selectedCell s = Some sc"
  shows "\<exists>pre. renderEffect props devicePixelRatio (Some canvas) s =
           pre @ [StrokeStyle (Color ''#ff9800''),
                  LineWidth (2 / scale s),
                  StrokeRect (of_int (col sc) * cellSize props + (1 / scale s) * 0.5)
                             (of_int (row sc) * cellSize props + (1 / scale s) * 0.5)
                             (cellSize props - 1 / scale s)
                             (cellSize props - 1 / scale s),
                  Restore]
         \<and> (\<forall>op \<in> set pre. \<not> isStrokeRect op)"
proof -
  define dpr where "dpr = (if devicePixelRatio = 0 then 1 else devicePixelRatio)"
  define gw where "gw = of_int (cols props) * cellSize props"
  define gh where "gh = of_int (rows props) * cellSize props"
  define hov where "hov = (case hoveredCell s of
                     None \<Rightarrow> []
                   | Some hc \<Rightarrow>
                       [FillStyle (Color ''rgba(255,255,255,0.08)''),
                        FillRect (of_int (col hc) * cellSize props)
                                 (of_int (row hc) * cellSize props)
                                 (cellSize props) (cellSize props)])"
  define pre where "pre = [Save,
                 SetTransform 1 0 0 1 0 0,
                 ClearRect 0 0 (width (buffer canvas)) (height (buffer canvas)),
                 ScaleBy dpr dpr,
                 Translate (x (offset s)) (y (offset s)),
                 ScaleBy (scale s) (scale s),
                 FillStyle (LinearGradient 0 0 gw gh
                              [(0, ''#0f0f15''), (1, ''#111820'')]),
                 FillRect 0 0 gw gh,
                 StrokeStyle (Color ''#242628''),
                 LineWidth (1 / scale s)]
                @ rowLines 0 (rows props) (cellSize props) gw
                @ colLines 0 (cols props) (cellSize props) gh
                @ hov"
  have hov_ok: "\<forall>op \<in> set hov. \<not> isStrokeRect op"
    by (auto simp add: hov_def split: option.splits)
  have "\<forall>op \<in> set pre. \<not> isStrokeRect op"
    using hov_ok rowLines_no_StrokeRect [of 0 "rows props" "cellSize props" gw]
      colLines_no_StrokeRect [of 0 "cols props" "cellSize props" gh]
    by (auto simp add: pre_def)
  moreover have "renderEffect props devicePixelRatio (Some canvas) s =
           pre @ [StrokeStyle (Color ''#ff9800''),
                  LineWidth (2 / scale s),
                  StrokeRect (of_int (col sc) * cellSize props + (1 / scale s) * 0.5)
                             (of_int (row sc) * cellSize props + (1 / scale s) * 0.5)
                             (cellSize props - 1 / scale s)
                             (cellSize props - 1 / scale s),
                  Restore]"
    using assms by (simp add: renderEffect_def Let_def pre_def hov_def dpr_def gw_def gh_def)
  ultimately show ?thesis by blast
qed

text \<open>
  C9, as amended. When a cell \<open>(row, col)\<close> is selected, the canvas has a 2D
  context and the scale is not zero, the repaint ends by setting the stroke style to the accent colour
  \<open>#ff9800\<close> and the line width to \<open>2 / scale\<close> and stroking one rectangle, the only
  stroked rectangle of the repaint: the cell rectangle
  \<open>[col * cellSize, row * cellSize, cellSize, cellSize]\<close> inset on each side by
  \<open>(1 / scale) * 0.5\<close>, half of the unit line width \<open>1 / scale\<close> (a quarter of the
  stroke width), so that its width and height are \<open>cellSize - 1 / scale\<close>.
\<close>

theorem selection_outline_geometry:
  assumes "canvasRef = Some canvas" and "hasContext2d canvas" and "selectedCell s = Some sc"
    and "scale s \<noteq> 0"
  shows "let inset = (1 / scale s) * 0.5;
             cellLeft = of_int (col sc) * cellSize props;
             cellTop = of_int (row sc) * cellSize props
         in \<exists>pre. renderEffect props devicePixelRatio canvasRef s =
                pre @ [StrokeStyle (Color ''#ff9800''),
                       LineWidth (2 / scale s),
                       StrokeRect (cellLeft + inset) (cellTop + inset)
                                  (cellSize props - 2 * inset) (cellSize props - 2 * inset),
                       Restore]
              \<and> (\<forall>op \<in> set pre. \<not> isStrokeRect op)"
  using renderEffect_selected [OF assms(2,3), of props devicePixelRatio]
  by (simp add: assms(1) Let_def)

theorem selection_outline_geometry_witness:
  "selectedCell clickedState = Some \<lparr> row = 3, col = 2 \<rparr>
   \<and> hasContext2d unitCanvas
   \<and> StrokeRect 64.5 96.5 31 31 \<in> set (renderEffect App_props 1 (Some unitCanvas) clickedState)"
proof -
  have h1: "Some unitCanvas = Some unitCanvas" by simp
  have h2: "hasContext2d unitCanvas" by (simp add: unitCanvas_def)
  have h3: "selectedCell clickedState = Some \<lparr> row = 3, col = 2 \<rparr>" by (rule clickedState_fields)
  have h4: "scale clickedState \<noteq> 0" by (simp add: clickedState_fields)
  note a = selection_outline_geometry [OF h1 h2 h3 h4, where props = App_props
      and devicePixelRatio = 1]
  have "cellSize App_props = 32" by (simp add: App_props_def)
  with a have "StrokeRect 64.5 96.5 31 31 \<in> set (renderEffect App_props 1 (Some unitCanvas) clickedState)"
    by (auto simp add: Let_def clickedState_fields)
  with h2 h3 show ?thesis by simp
qed

text \<open>
  The claim as stated asks for an inset of half the stroke width, \<open>1 / scale\<close>, on
  each side. For the cell (row 3, col 2) of the host's grid at scale 1 that would be
  the rectangle [65, 97, 30, 30]; the repaint does not stroke it, it strokes
  [64.5, 96.5, 31, 31].
\<close>

theorem selection_outline_inset_counterexample:
  "selectedCell clickedState = Some \<lparr> row = 3, col = 2 \<rparr>
   \<and> scale clickedState = 1
   \<and> StrokeRect (2 * 32 + 1 / 1) (3 * 32 + 1 / 1) (32 - 2 * (1 / 1)) (32 - 2 * (1 / 1))
       \<notin> set (renderEffect App_props 1 (Some unitCanvas) clickedState)
   \<and> StrokeRect (2 * 32 + 1 / 2) (3 * 32 + 1 / 2) (32 - 2 * (1 / 2)) (32 - 2 * (1 / 2))
       \<in> set (renderEffect App_props 1 (Some unitCanvas) clickedState)"
proof -
  have h2: "hasContext2d unitCanvas" by (simp add: unitCanvas_def)
  have h3: "selectedCell clickedState = Some \<lparr> row = 3, col = 2 \<rparr>" by (rule clickedState_fields)
  have cs: "cellSize App_props = 32" by (simp add: App_props_def)
  from renderEffect_selected [OF h2 h3, of App_props 1]
  obtain pre where
    eq: "renderEffect App_props 1 (Some unitCanvas) clickedState =
           pre @ [StrokeStyle (Color ''#ff9800''), LineWidth 2, StrokeRect 64.5 96.5 31 31, Restore]"
    and pre: "\<forall>op \<in> set pre. \<not> isStrokeRect op"
    by (auto simp add: cs clickedState_fields)
  from pre have "StrokeRect 65 97 30 30 \<notin> set pre" by auto
  then show ?thesis
    by (simp add: eq clickedState_fields)
qed

end
